theory Spec2Isabelle
  imports Complex_Main "HOL-Library.Multiset"
begin

section \<open>JavaScript numbers\<close>

text \<open>
  A number is a finite value, one of the two infinities, or NaN. Finite values are taken
  as exact reals: rounding, overflow to an infinity and the sign of zero are left out.
  The special values follow IEEE 754 as JavaScript has it: \<open>0 / 0\<close>,
  \<open>Infinity - Infinity\<close>, \<open>0 * Infinity\<close> and \<open>Infinity / Infinity\<close> are NaN, a
  non-zero value divided by zero is an infinity, and NaN is absorbing.
\<close>

datatype number = Finite real | PosInf | NegInf | NaN

fun num_neg :: "number \<Rightarrow> number" where
  "num_neg (Finite a) = Finite (- a)"
| "num_neg PosInf = NegInf"
| "num_neg NegInf = PosInf"
| "num_neg NaN = NaN"

fun num_add :: "number \<Rightarrow> number \<Rightarrow> number" where
  "num_add NaN b = NaN"
| "num_add a NaN = NaN"
| "num_add (Finite a) (Finite b) = Finite (a + b)"
| "num_add PosInf NegInf = NaN"
| "num_add NegInf PosInf = NaN"
| "num_add PosInf b = PosInf"
| "num_add NegInf b = NegInf"
| "num_add (Finite a) b = b"

definition num_sub :: "number \<Rightarrow> number \<Rightarrow> number" where
  "num_sub a b = num_add a (num_neg b)"

text \<open>The sign of a number that is not NaN: \<open>-1\<close>, \<open>0\<close> or \<open>1\<close>.\<close>

fun num_sgn :: "number \<Rightarrow> real" where
  "num_sgn (Finite a) = sgn a"
| "num_sgn PosInf = 1"
| "num_sgn NegInf = - 1"
| "num_sgn NaN = 0"

definition signed_inf :: "real \<Rightarrow> number" where
  "signed_inf s = (if s = 0 then NaN else if 0 < s then PosInf else NegInf)"

fun num_mul :: "number \<Rightarrow> number \<Rightarrow> number" where
  "num_mul NaN b = NaN"
| "num_mul a NaN = NaN"
| "num_mul (Finite a) (Finite b) = Finite (a * b)"
| "num_mul a b = signed_inf (num_sgn a * num_sgn b)"

fun num_div :: "number \<Rightarrow> number \<Rightarrow> number" where
  "num_div NaN b = NaN"
| "num_div a NaN = NaN"
| "num_div (Finite a) (Finite b) = (if b = 0 then signed_inf (sgn a) else Finite (a / b))"
| "num_div (Finite a) b = Finite 0"
| "num_div a (Finite b) = signed_inf (num_sgn a * (if b < 0 then - 1 else 1))"
| "num_div a b = NaN"

text \<open>\<open>a < b\<close> and \<open>a >= b\<close>; every comparison with NaN is false.\<close>

fun num_less :: "number \<Rightarrow> number \<Rightarrow> bool" where
  "num_less NaN b = False"
| "num_less a NaN = False"
| "num_less (Finite a) (Finite b) = (a < b)"
| "num_less a PosInf = (a \<noteq> PosInf)"
| "num_less NegInf b = (b \<noteq> NegInf)"
| "num_less a b = False"

definition num_ge :: "number \<Rightarrow> number \<Rightarrow> bool" where
  "num_ge a b = (a \<noteq> NaN \<and> b \<noteq> NaN \<and> \<not> num_less a b)"

text \<open>
  \<open>Math.max(...values)\<close> starts from \<open>-Infinity\<close> and \<open>Math.min(...values)\<close> from
  \<open>Infinity\<close>, which is what they return for no argument at all; a NaN argument makes
  the result NaN.
\<close>

definition max2 :: "number \<Rightarrow> number \<Rightarrow> number" where
  "max2 a b = (if a = NaN \<or> b = NaN then NaN else if num_less a b then b else a)"

definition min2 :: "number \<Rightarrow> number \<Rightarrow> number" where
  "min2 a b = (if a = NaN \<or> b = NaN then NaN else if num_less b a then b else a)"

definition Math_max :: "number list \<Rightarrow> number" where
  "Math_max values = foldl max2 NegInf values"

definition Math_min :: "number list \<Rightarrow> number" where
  "Math_min values = foldl min2 PosInf values"

section \<open>word-processing.js: WordProcessing\<close>

subsection \<open>The object state\<close>

text \<open>
  The constructor stores its two arguments in the fields \<open>wordnikBaseUrl\<close> and
  \<open>datamuseBaseUrl\<close>; the class has no other field.
\<close>

record WordProcessing =
  wordnikBaseUrl :: string
  datamuseBaseUrl :: string

definition WordProcessing_constructor :: "string \<Rightarrow> string \<Rightarrow> WordProcessing" where
  "WordProcessing_constructor wordnikBaseUrl' datamuseBaseUrl' =
     \<lparr>wordnikBaseUrl = wordnikBaseUrl', datamuseBaseUrl = datamuseBaseUrl'\<rparr>"

subsection \<open>filterWords\<close>

text \<open>
  A JavaScript \<open>Set\<close> iterates in insertion order, and adding a value it already holds
  changes nothing. It is modelled by the list of its elements in insertion order.
  \<open>new Set(wordArray)\<close> adds the elements of the array from left to right, and
  \<open>Array.from\<close> reads the set back in insertion order.
\<close>

definition Set_add :: "'a list \<Rightarrow> 'a \<Rightarrow> 'a list" where
  "Set_add s x = (if x \<in> set s then s else s @ [x])"

definition new_Set :: "'a list \<Rightarrow> 'a list" where
  "new_Set xs = foldl Set_add [] xs"

definition Array_from :: "'a list \<Rightarrow> 'a list" where
  "Array_from s = s"

text \<open>
  \<open>slice(0, sliceSize)\<close>: the parameter is documented as the maximum number of unique
  words, a count; for a count \<open>n\<close> the slice is the first \<open>n\<close> elements, or the whole
  array when it is shorter.
\<close>

definition slice0 :: "nat \<Rightarrow> 'a list \<Rightarrow> 'a list" where
  "slice0 n xs = take n xs"

definition filterWords :: "'a list \<Rightarrow> nat \<Rightarrow> 'a list" where
  "filterWords wordArray sliceSize = slice0 sliceSize (Array_from (new_Set wordArray))"

text \<open>
  The specification's wording of deduplication, "order of first occurrence preserved":
  the head of the list stays where it is and its later copies are removed.
\<close>

primrec unique_spec :: "'a list \<Rightarrow> 'a list" where
  "unique_spec [] = []"
| "unique_spec (x # xs) = x # removeAll x (unique_spec xs)"


subsection \<open>shuffleArray\<close>

text \<open>
  An array element is \<open>Some v\<close>, or \<open>None\<close> for JavaScript's \<open>undefined\<close>. Reading an
  index past the end gives \<open>undefined\<close>; writing there extends the array, the gap filled
  with holes that read as \<open>undefined\<close>. A negative index names an ordinary property and
  not an element, so such a write leaves the elements as they are (the model does not
  track these properties).
\<close>

definition array_get :: "'a option list \<Rightarrow> int \<Rightarrow> 'a option" where
  "array_get a i = (if 0 \<le> i \<and> i < int (length a) then a ! nat i else None)"

definition array_set :: "'a option list \<Rightarrow> int \<Rightarrow> 'a option \<Rightarrow> 'a option list" where
  "array_set a i v =
     (if 0 \<le> i \<and> i < int (length a) then a[nat i := v]
      else if int (length a) \<le> i then a @ replicate (nat i - length a) None @ [v]
      else a)"

text \<open>
  \<open>[wordArray[i], wordArray[j]] = [wordArray[j], wordArray[i]]\<close>: the right-hand array
  is built first, then its two elements are assigned to index \<open>i\<close> and to index \<open>j\<close>.
\<close>

definition swap :: "'a option list \<Rightarrow> int \<Rightarrow> int \<Rightarrow> 'a option list" where
  "swap wordArray i j =
     (let rhs0 = array_get wordArray j; rhs1 = array_get wordArray i
      in array_set (array_set wordArray i rhs0) j rhs1)"

text \<open>
  The random source is the sequence of values that successive calls of \<open>Math.random()\<close>
  return; \<open>k\<close> counts the calls made so far. Each round of the loop makes one call.
\<close>

function shuffle_loop :: "(nat \<Rightarrow> real) \<Rightarrow> nat \<Rightarrow> int \<Rightarrow> 'a option list \<Rightarrow> 'a option list" where
  "shuffle_loop random k i wordArray =
     (if i > 0
      then (let j = \<lfloor>random k * (of_int i + 1)\<rfloor>
            in shuffle_loop random (k + 1) (i - 1) (swap wordArray i j))
      else wordArray)"
  by pat_completeness auto

termination
  by (relation "measure (\<lambda>(random, k, i, wordArray). nat i)") auto

declare shuffle_loop.simps [simp del]

definition shuffleArray :: "(nat \<Rightarrow> real) \<Rightarrow> 'a option list \<Rightarrow> 'a option list" where
  "shuffleArray random wordArray = shuffle_loop random 0 (int (length wordArray) - 1) wordArray"

subsection \<open>The two word services\<close>

text \<open>
  \<open>fetch\<close> is a function from the request URL to the outcome of the request: \<open>None\<close>
  when the promise rejects (a transport-level failure), otherwise a response with its
  \<open>ok\<close> flag, its status text, and the value \<open>response.json()\<close> resolves to
  (\<open>None\<close> when that promise rejects because the body is not JSON). A parsed body has the
  shape the service documents: an array of entries.
\<close>

record 'a response =
  response_ok :: bool
  response_statusText :: string
  response_json :: "'a option"

datatype error = TransportError | MalformedResponse | TypeError

subsection \<open>relatedWords\<close>

record related_entry =
  entry_relationshipType :: string
  entry_words :: "string list"

datatype console_line =
    Log string
  | Error string

record related_state =
  synonyms :: "string list list"
  console :: "console_line list"

definition wordnik_url :: "WordProcessing \<Rightarrow> string \<Rightarrow> string \<Rightarrow> string" where
  "wordnik_url this word apiKey =
     wordnikBaseUrl this @ ''/'' @ word @ ''/relatedWords?useCanonical=true&api_key='' @ apiKey"

text \<open>The inner loop over \<open>data\<close>, which pushes the word list of each synonym entry.\<close>

definition push_synonyms :: "related_entry list \<Rightarrow> string list list \<Rightarrow> string list list" where
  "push_synonyms data syns =
     foldl (\<lambda>acc e. if entry_relationshipType e = ''synonym'' then acc @ [entry_words e] else acc)
       syns data"

text \<open>
  The body of the \<open>try\<close> block for one word. An exception leaves it with the state
  reached so far, since the array and the console are updated in place.
\<close>

definition relatedWords_try ::
  "WordProcessing \<Rightarrow> (string \<Rightarrow> related_entry list response option) \<Rightarrow> string \<Rightarrow> string
     \<Rightarrow> related_state \<Rightarrow> (error \<times> related_state) + related_state" where
  "relatedWords_try this fetch apiKey word st =
     (case fetch (wordnik_url this word apiKey) of
        None \<Rightarrow> Inl (TransportError, st)
      | Some response \<Rightarrow>
          (let st1 = st\<lparr>console := console st @ [Log word]\<rparr>
           in if response_ok response
              then (case response_json response of
                      None \<Rightarrow> Inl (MalformedResponse, st1)
                    | Some data \<Rightarrow> Inr (st1\<lparr>synonyms := push_synonyms data (synonyms st1)\<rparr>))
              else Inr (st1\<lparr>console := console st1 @ [Error word]\<rparr>)))"

text \<open>One round of the loop over \<open>words\<close>: the \<open>try\<close> block and its \<open>catch\<close>.\<close>

definition relatedWords_step ::
  "WordProcessing \<Rightarrow> (string \<Rightarrow> related_entry list response option) \<Rightarrow> string
     \<Rightarrow> related_state \<Rightarrow> string \<Rightarrow> related_state" where
  "relatedWords_step this fetch apiKey st word =
     (case relatedWords_try this fetch apiKey word st of
        Inr st' \<Rightarrow> st'
      | Inl (e, st') \<Rightarrow> st'\<lparr>console := console st' @ [Error word]\<rparr>)"

definition relatedWords ::
  "WordProcessing \<Rightarrow> (string \<Rightarrow> related_entry list response option) \<Rightarrow> string list \<Rightarrow> string
     \<Rightarrow> related_state" where
  "relatedWords this fetch words apiKey =
     foldl (relatedWords_step this fetch apiKey) \<lparr>synonyms = [], console = []\<rparr> words"

subsection \<open>getWordFrequency\<close>

record datamuse_match =
  match_word :: string
  match_score :: number

record frequency_entry =
  entry_word :: string
  entry_frequency :: number

text \<open>
  \<open>encodeURIComponent\<close> on a string of bytes: the unreserved characters stay, every other
  byte becomes \<open>%\<close> and two upper-case hexadecimal digits.
\<close>

definition hex_digit :: "nat \<Rightarrow> char" where
  "hex_digit n = (if n < 10 then char_of (48 + n) else char_of (55 + n))"

definition unreserved :: "char \<Rightarrow> bool" where
  "unreserved c =
     (let n = (of_char c :: nat)
      in (65 \<le> n \<and> n \<le> 90) \<or> (97 \<le> n \<and> n \<le> 122) \<or> (48 \<le> n \<and> n \<le> 57)
         \<or> c \<in> set ''-_.!~*'()'')"

definition encodeURIComponent :: "string \<Rightarrow> string" where
  "encodeURIComponent s =
     concat (map (\<lambda>c. if unreserved c then [c]
                       else [CHR ''%'', hex_digit (of_char c div 16), hex_digit (of_char c mod 16)]) s)"

text \<open>
  The callback that is mapped over \<open>words\<close>. Evaluating the template literal assigns the
  literal URL to \<open>this.datamuseBaseUrl\<close>, and the value of that assignment is what the
  request is built from. The callback returns the updated object and the outcome of its
  promise.
\<close>

definition getWordFrequency_callback ::
  "(string \<Rightarrow> datamuse_match list response option) \<Rightarrow> WordProcessing \<Rightarrow> string
     \<Rightarrow> WordProcessing \<times> (error + frequency_entry)" where
  "getWordFrequency_callback fetch this word =
     (let this1 = this\<lparr>datamuseBaseUrl := ''https://api.datamuse.com/words''\<rparr>;
          url = datamuseBaseUrl this1 @ ''?sp='' @ encodeURIComponent word @ ''&md=f''
      in (this1,
          case fetch url of
            None \<Rightarrow> Inl TransportError
          | Some response \<Rightarrow>
              (case response_json response of
                 None \<Rightarrow> Inl MalformedResponse
               | Some data \<Rightarrow>
                   if length data > 0
                   then Inr \<lparr>entry_word = word, entry_frequency = match_score (data ! 0)\<rparr>
                   else Inr \<lparr>entry_word = word, entry_frequency = Finite 0\<rparr>)))"

text \<open>
  \<open>words.map\<close> calls the callback for each word in order; each call runs up to its first
  \<open>await\<close>, so all the assignments to the field happen during the map.
\<close>

fun map_callbacks ::
  "(string \<Rightarrow> datamuse_match list response option) \<Rightarrow> WordProcessing \<Rightarrow> string list
     \<Rightarrow> WordProcessing \<times> (error + frequency_entry) list" where
  "map_callbacks fetch this [] = (this, [])"
| "map_callbacks fetch this (word # words) =
     (let (this1, p) = getWordFrequency_callback fetch this word;
          (this2, ps) = map_callbacks fetch this1 words
      in (this2, p # ps))"

text \<open>
  \<open>Promise.all\<close> resolves to the array of the results, in the order of the promises,
  when every promise resolves, and rejects as soon as one of them rejects. Which
  rejection it reports depends on the order in which the requests settle; the model
  reports the first one in the order of the array.
\<close>

fun Promise_all :: "('e + 'a) list \<Rightarrow> 'e + 'a list" where
  "Promise_all [] = Inr []"
| "Promise_all (Inl e # ps) = Inl e"
| "Promise_all (Inr x # ps) = (case Promise_all ps of Inl e \<Rightarrow> Inl e | Inr xs \<Rightarrow> Inr (x # xs))"

definition getWordFrequency ::
  "(string \<Rightarrow> datamuse_match list response option) \<Rightarrow> WordProcessing \<Rightarrow> string list
     \<Rightarrow> WordProcessing \<times> (error + frequency_entry list)" where
  "getWordFrequency fetch this words =
     (let (this', ps) = map_callbacks fetch this words
      in (this', Promise_all ps))"


section \<open>word-cloud.js: the clouds\<close>

text \<open>
  The layout and the drawing belong to the d3 library. What a cloud hands to the layout
  is the array of \<open>{text, size}\<close> objects it passes to \<open>.words(...)\<close>; \<open>drawCloud\<close> is
  modelled by that array.
\<close>

record sized_word =
  sized_text :: string
  sized_size :: number

subsection \<open>WordCloud\<close>

definition WordCloud_drawCloud :: "string list \<Rightarrow> sized_word list" where
  "WordCloud_drawCloud words =
     map (\<lambda>word. \<lparr>sized_text = word, sized_size = Finite 20\<rparr>) words"

subsection \<open>FemaleCloud\<close>

record FemaleCloud =
  fc_words :: "string list"
  fc_containerId :: string
  fc_apiKey :: string
  fc_synonymsArray :: "string list"

definition FemaleCloud_constructor :: "string list \<Rightarrow> string \<Rightarrow> string \<Rightarrow> FemaleCloud" where
  "FemaleCloud_constructor words containerId apiKey =
     \<lparr>fc_words = words, fc_containerId = containerId, fc_apiKey = apiKey, fc_synonymsArray = []\<rparr>"

text \<open>\<open>synonyms.flat()\<close> flattens the array of word arrays by one level.\<close>

definition flat :: "'a list list \<Rightarrow> 'a list" where
  "flat xss = concat xss"

definition getSynonyms ::
  "FemaleCloud \<Rightarrow> WordProcessing \<Rightarrow> (string \<Rightarrow> related_entry list response option) \<Rightarrow> FemaleCloud" where
  "getSynonyms this wordProcessing fetch =
     (let syns = synonyms (relatedWords wordProcessing fetch (fc_words this) (fc_apiKey this))
      in this\<lparr>fc_synonymsArray := flat syns\<rparr>)"

definition renderSynonyms :: "FemaleCloud \<Rightarrow> FemaleCloud \<times> sized_word list" where
  "renderSynonyms this =
     (let this1 = this\<lparr>fc_words := fc_synonymsArray this\<rparr>
      in (this1, WordCloud_drawCloud (fc_words this1)))"

subsection \<open>MaleCloud\<close>

text \<open>
  After \<open>getFrequencies\<close> the words of a MaleCloud are objects with the keys \<open>text\<close>,
  \<open>size\<close> and \<open>frequency\<close>.
\<close>

record frequency_word =
  word_text :: string
  word_size :: number
  word_frequency :: number

text \<open>
  \<open>getFrequencies\<close>, after the frequencies have arrived: each word takes the frequency
  of the first entry with its name, and 0 when there is none.
\<close>

definition attach_frequencies :: "frequency_entry list \<Rightarrow> string list \<Rightarrow> frequency_word list" where
  "attach_frequencies wordFrequencies words =
     map (\<lambda>word.
            (case find (\<lambda>entry. entry_word entry = word) wordFrequencies of
               Some frequencyEntry \<Rightarrow>
                 \<lparr>word_text = word, word_size = Finite 0, word_frequency = entry_frequency frequencyEntry\<rparr>
             | None \<Rightarrow> \<lparr>word_text = word, word_size = Finite 0, word_frequency = Finite 0\<rparr>))
         words"

definition filterFrequency :: "frequency_word list \<Rightarrow> number \<Rightarrow> frequency_word list" where
  "filterFrequency words threshold = filter (\<lambda>word. num_ge (word_frequency word) threshold) words"

definition minSize :: number where
  "minSize = Finite 10"

definition maxSize :: number where
  "maxSize = Finite 42"

definition scaleFontSize :: "number \<Rightarrow> number \<Rightarrow> number \<Rightarrow> number" where
  "scaleFontSize frequency minFrequency maxFrequency =
     num_add minSize
       (num_div (num_mul (num_sub frequency minFrequency) (num_sub maxSize minSize))
                (num_sub maxFrequency minFrequency))"

text \<open>
  \<open>MaleCloud.drawCloud\<close> computes the two constants \<open>maxFrequency\<close> and \<open>minFrequency\<close>
  and then the array for the layout; the model returns all three.
\<close>

record frequency_layout =
  maxFrequency :: number
  minFrequency :: number
  layout_words :: "sized_word list"

definition MaleCloud_drawCloud :: "frequency_word list \<Rightarrow> frequency_layout" where
  "MaleCloud_drawCloud words =
     (let maxF = Math_max (map word_frequency words);
          minF = Math_min (map word_frequency words)
      in \<lparr>maxFrequency = maxF, minFrequency = minF,
          layout_words =
            map (\<lambda>word. \<lparr>sized_text = word_text word,
                          sized_size = scaleFontSize (word_frequency word) minF maxF\<rparr>) words\<rparr>)"

section \<open>main.js: the words of the dataset\<close>

text \<open>
  Strings are lists of bytes. \<open>toLowerCase\<close> is modelled on the ASCII letters and leaves
  every other byte as it is; the regular expression then turns every byte that is
  neither an ASCII letter nor white space into a space.
\<close>

definition is_alpha :: "char \<Rightarrow> bool" where
  "is_alpha c = (let n = (of_char c :: nat) in (65 \<le> n \<and> n \<le> 90) \<or> (97 \<le> n \<and> n \<le> 122))"

definition is_space :: "char \<Rightarrow> bool" where
  "is_space c = (let n = (of_char c :: nat) in n = 32 \<or> (9 \<le> n \<and> n \<le> 13))"

definition toLowerCase :: "string \<Rightarrow> string" where
  "toLowerCase s =
     map (\<lambda>c. let n = (of_char c :: nat) in if 65 \<le> n \<and> n \<le> 90 then char_of (n + 32) else c) s"

definition replace_non_alpha :: "string \<Rightarrow> string" where
  "replace_non_alpha s = map (\<lambda>c. if is_alpha c \<or> is_space c then c else CHR '' '') s"

text \<open>
  \<open>split(/\s+/)\<close>: every maximal run of white space is one separator. The pieces before
  the first separator and after the last one are part of the result also when they are
  empty, and the empty string splits into one empty piece. \<open>insep\<close> tells that the
  previous character belonged to a separator, \<open>cur\<close> is the piece being read.
\<close>

fun split_loop :: "bool \<Rightarrow> string \<Rightarrow> string \<Rightarrow> string list" where
  "split_loop insep cur [] = [cur]"
| "split_loop insep cur (c # cs) =
     (if is_space c
      then (if insep then split_loop True cur cs else cur # split_loop True [] cs)
      else split_loop False (cur @ [c]) cs)"

definition split_spaces :: "string \<Rightarrow> string list" where
  "split_spaces s = split_loop False [] s"

text \<open>
  A row of the CSV file is a dictionary from column names to strings. Calling
  \<open>toLowerCase\<close> on the \<open>undefined\<close> that a missing column reads as throws a TypeError,
  which ends the whole \<open>map\<close>.
\<close>

definition row_tokens :: "(string \<rightharpoonup> string) \<Rightarrow> error + string list" where
  "row_tokens row =
     (case row ''indicator_name'' of
        None \<Rightarrow> Inl TypeError
      | Some v \<Rightarrow> Inr (split_spaces (replace_non_alpha (toLowerCase v))))"

fun map_rows :: "(string \<rightharpoonup> string) list \<Rightarrow> error + string list list" where
  "map_rows [] = Inr []"
| "map_rows (row # rows) =
     (case row_tokens row of
        Inl e \<Rightarrow> Inl e
      | Inr ts \<Rightarrow> (case map_rows rows of Inl e \<Rightarrow> Inl e | Inr tss \<Rightarrow> Inr (ts # tss)))"

text \<open>
  \<open>.filter(word => word)\<close> is applied to the array of token arrays, so its argument is an
  array each time, and every array is truthy, the empty one too.
\<close>

definition truthy_array :: "'a list \<Rightarrow> bool" where
  "truthy_array a = True"

definition csv_words :: "(string \<rightharpoonup> string) list \<Rightarrow> error + string list list" where
  "csv_words csvData =
     (case map_rows csvData of
        Inl e \<Rightarrow> Inl e
      | Inr tss \<Rightarrow> Inr (filter (\<lambda>word. truthy_array word) tss))"

text \<open>
  The vocabulary \<open>Array.from(new Set(words.flat()))\<close>, from which the verbs are then
  chosen by \<open>RiTa.isVerb\<close>, and the two vocabularies of the rows that have the token
  \<open>female\<close> or \<open>male\<close>.
\<close>

definition vocabulary :: "string list list \<Rightarrow> string list" where
  "vocabulary words = Array_from (new_Set (flat words))"

definition verbs :: "(string \<Rightarrow> bool) \<Rightarrow> string list list \<Rightarrow> string list" where
  "verbs isVerb words = filter (\<lambda>word. isVerb word) (vocabulary words)"

definition femaleWords :: "string list list \<Rightarrow> string list" where
  "femaleWords words = Array_from (new_Set (flat (filter (\<lambda>array. ''female'' \<in> set array) words)))"

definition maleWords :: "string list list \<Rightarrow> string list" where
  "maleWords words = Array_from (new_Set (flat (filter (\<lambda>array. ''male'' \<in> set array) words)))"

definition extract_vocabulary :: "(string \<rightharpoonup> string) list \<Rightarrow> error + string list" where
  "extract_vocabulary csvData = (case csv_words csvData of Inl e \<Rightarrow> Inl e | Inr words \<Rightarrow> Inr (vocabulary words))"

section \<open>The specification's wording\<close>

text \<open>
  The request that the callback of \<open>getWordFrequency\<close> sends for a word, and the array
  that the reply to it carries, if any.
\<close>

definition datamuse_url :: "string \<Rightarrow> string" where
  "datamuse_url word =
     ''https://api.datamuse.com/words'' @ ''?sp='' @ encodeURIComponent word @ ''&md=f''"

definition reply_data ::
  "(string \<Rightarrow> datamuse_match list response option) \<Rightarrow> string \<Rightarrow> datamuse_match list option" where
  "reply_data fetch word =
     (case fetch (datamuse_url word) of None \<Rightarrow> None | Some response \<Rightarrow> response_json response)"

text \<open>
  "If the response contains at least one match, record its score; otherwise record
  score 0."
\<close>

definition first_score :: "datamuse_match list \<Rightarrow> number" where
  "first_score data = (case data of [] \<Rightarrow> Finite 0 | m # ms \<Rightarrow> match_score m)"

text \<open>
  "Only entries with \<open>relationshipType == "synonym"\<close> are consumed": the word lists of
  the synonym entries in the reply for one word, none when the request fails or the
  response is not a success.
\<close>

definition synonym_lists ::
  "WordProcessing \<Rightarrow> (string \<Rightarrow> related_entry list response option) \<Rightarrow> string \<Rightarrow> string
     \<Rightarrow> string list list" where
  "synonym_lists this fetch apiKey word =
     (case fetch (wordnik_url this word apiKey) of
        None \<Rightarrow> []
      | Some response \<Rightarrow>
          if response_ok response
          then (case response_json response of
                  None \<Rightarrow> []
                | Some data \<Rightarrow>
                    map entry_words (filter (\<lambda>e. entry_relationshipType e = ''synonym'') data))
          else [])"

section \<open>Example inputs\<close>

definition example_response :: "'a \<Rightarrow> 'a response" where
  "example_response body =
     \<lparr>response_ok = True, response_statusText = ''OK'', response_json = Some body\<rparr>"

text \<open>
  A frequency service that knows \<open>cat\<close>, cannot be reached for \<open>dog\<close>, and has no match
  for any other word.
\<close>

definition example_datamuse :: "string \<Rightarrow> datamuse_match list response option" where
  "example_datamuse url =
     (if url = ''https://api.datamuse.com/words?sp=cat&md=f''
      then Some (example_response [\<lparr>match_word = ''cat'', match_score = Finite 1234\<rparr>])
      else if url = ''https://api.datamuse.com/words?sp=dog&md=f'' then None
      else Some (example_response []))"

text \<open>
  A synonym service that knows \<open>large\<close> and \<open>great\<close>, cannot be reached for \<open>down\<close>,
  and answers 404 for any other word.
\<close>

definition example_wordnik :: "string \<Rightarrow> related_entry list response option" where
  "example_wordnik url =
     (if url = ''w/large/relatedWords?useCanonical=true&api_key=k''
      then Some (example_response
             [\<lparr>entry_relationshipType = ''antonym'', entry_words = [''small'']\<rparr>,
              \<lparr>entry_relationshipType = ''synonym'', entry_words = [''big'', ''huge'']\<rparr>])
      else if url = ''w/great/relatedWords?useCanonical=true&api_key=k''
      then Some (example_response
             [\<lparr>entry_relationshipType = ''synonym'', entry_words = [''big'']\<rparr>])
      else if url = ''w/down/relatedWords?useCanonical=true&api_key=k'' then None
      else Some \<lparr>response_ok = False, response_statusText = ''Not Found'', response_json = None\<rparr>)"

definition example_processing :: WordProcessing where
  "example_processing = WordProcessing_constructor ''w'' ''http://localhost:8080/words''"

section \<open>Properties of filterWords\<close>

lemma filter_removeAll_member:
  "x \<in> A \<Longrightarrow> filter (\<lambda>y. y \<notin> A) (removeAll x ys) = filter (\<lambda>y. y \<notin> A) ys"
  by (induction ys) auto

lemma filter_removeAll_insert:
  "filter (\<lambda>y. y \<notin> insert x A) ys = filter (\<lambda>y. y \<notin> A) (removeAll x ys)"
  by (induction ys) auto

lemma set_unique_spec: "set (unique_spec xs) = set xs"
  by (induction xs) auto

lemma distinct_unique_spec: "distinct (unique_spec xs)"
  by (induction xs) (auto simp: distinct_removeAll)

lemma length_unique_spec: "length (unique_spec xs) = card (set xs)"
proof -
  have "card (set (unique_spec xs)) = length (unique_spec xs)"
    using distinct_unique_spec by (rule distinct_card)
  then show ?thesis by (simp add: set_unique_spec)
qed

lemma foldl_Set_add:
  "foldl Set_add acc xs = acc @ filter (\<lambda>y. y \<notin> set acc) (unique_spec xs)"
proof (induction xs arbitrary: acc)
  case Nil
  then show ?case by simp
next
  case (Cons x xs)
  show ?case
  proof (cases "x \<in> set acc")
    case True
    with Cons.IH [of acc] show ?thesis
      by (simp add: Set_add_def filter_removeAll_member)
  next
    case False
    have "filter (\<lambda>y. y \<notin> set (acc @ [x])) (unique_spec xs)
            = filter (\<lambda>y. y \<notin> set acc) (removeAll x (unique_spec xs))"
      using filter_removeAll_insert [of x "set acc" "unique_spec xs"] by simp
    with False Cons.IH [of "acc @ [x]"] show ?thesis
      by (simp add: Set_add_def)
  qed
qed

lemma new_Set_unique_spec: "new_Set xs = unique_spec xs"
  by (simp add: new_Set_def foldl_Set_add)

lemma set_new_Set: "set (new_Set xs) = set xs"
  by (simp add: new_Set_unique_spec set_unique_spec)

text \<open>
  C7. For every word list \<open>v\<close> and bound \<open>n\<close>, filterWords returns a sequence of length
  at most \<open>min n |unique v|\<close>, whose elements are all drawn from \<open>v\<close>, without
  duplicates, in order of first occurrence in \<open>v\<close> (it is the first \<open>n\<close> entries of
  the first-occurrence deduplication of \<open>v\<close>). Being a function of \<open>v\<close> and \<open>n\<close> alone,
  it is deterministic.
\<close>

theorem filterWords_bounded_unique:
  "length (filterWords v n) \<le> min n (card (set v))
   \<and> set (filterWords v n) \<subseteq> set v
   \<and> distinct (filterWords v n)
   \<and> filterWords v n = take n (unique_spec v)"
proof -
  have eq: "filterWords v n = take n (unique_spec v)"
    by (simp add: filterWords_def slice0_def Array_from_def new_Set_unique_spec)
  have len: "length (take n (unique_spec v)) \<le> min n (card (set v))"
    by (simp add: length_unique_spec)
  have sub: "set (take n (unique_spec v)) \<subseteq> set v"
    using set_take_subset [of n "unique_spec v"] by (simp add: set_unique_spec)
  have dist: "distinct (take n (unique_spec v))"
    by (simp add: distinct_unique_spec)
  from eq len sub dist show ?thesis by simp
qed

theorem filterWords_bounded_unique_witness:
  "filterWords [''b'', ''a'', ''b'', ''c'', ''a''] 2 = [''b'', ''a'']
   \<and> length (filterWords [''b'', ''a'', ''b'', ''c'', ''a''] 2)
        \<le> min 2 (card (set [''b'', ''a'', ''b'', ''c'', ''a'']))"
  using filterWords_bounded_unique [of "[''b'', ''a'', ''b'', ''c'', ''a'']" 2]
  by (simp add: filterWords_def slice0_def Array_from_def new_Set_def Set_add_def)

section \<open>Properties of shuffleArray\<close>

lemma swap_in_range:
  assumes "0 \<le> i" "i < int (length a)" "0 \<le> j" "j < int (length a)"
  shows "swap a i j = a[nat i := a ! nat j, nat j := a ! nat i]"
  using assms by (simp add: swap_def array_get_def array_set_def Let_def)

lemma swap_perm:
  assumes "0 \<le> i" "i < int (length a)" "0 \<le> j" "j < int (length a)"
  shows "mset (swap a i j) = mset a \<and> length (swap a i j) = length a"
proof -
  from assms have "nat i < length a" "nat j < length a" by linarith+
  then have "mset (a[nat i := a ! nat j, nat j := a ! nat i]) = mset a"
    by (simp add: mset_swap)
  with assms show ?thesis by (simp add: swap_in_range)
qed

lemma draw_in_range:
  fixes r :: real and i :: int
  assumes "0 \<le> r" "r < 1" "0 < i"
  shows "0 \<le> \<lfloor>r * (of_int i + 1)\<rfloor> \<and> \<lfloor>r * (of_int i + 1)\<rfloor> \<le> i"
proof -
  have pos: "(0::real) < of_int i + 1" using assms(3) by simp
  from assms(1) pos have "0 \<le> r * (of_int i + 1)" by simp
  then have lo: "0 \<le> \<lfloor>r * (of_int i + 1)\<rfloor>" by simp
  from assms(2) pos have "r * (of_int i + 1) < 1 * (of_int i + 1)"
    by (rule mult_strict_right_mono)
  then have "r * (of_int i + 1) < of_int (i + 1)" by simp
  then have "\<lfloor>r * (of_int i + 1)\<rfloor> < i + 1" by (simp only: floor_less_iff)
  with lo show ?thesis by simp
qed

lemma shuffle_loop_perm:
  "\<forall>k. 0 \<le> random k \<and> random k < 1 \<Longrightarrow> i < int (length a) \<Longrightarrow>
         mset (shuffle_loop random k i a) = mset a \<and> length (shuffle_loop random k i a) = length a"
proof (induction random k i a rule: shuffle_loop.induct)
  case (1 random k i wordArray)
  show ?case
  proof (cases "i > 0")
    case False
    then show ?thesis by (simp add: shuffle_loop.simps)
  next
    case True
    let ?j = "\<lfloor>random k * (of_int i + 1)\<rfloor>"
    from "1.prems" have "0 \<le> random k" "random k < 1" by blast+
    with True have j: "0 \<le> ?j \<and> ?j \<le> i" by (intro draw_in_range)
    with True "1.prems" have sw: "mset (swap wordArray i ?j) = mset wordArray
        \<and> length (swap wordArray i ?j) = length wordArray"
      by (intro swap_perm) simp_all
    with "1.prems" have "i - 1 < int (length (swap wordArray i ?j))" by simp
    with True "1.prems"(1) have "mset (shuffle_loop random (k + 1) (i - 1) (swap wordArray i ?j))
          = mset (swap wordArray i ?j)
        \<and> length (shuffle_loop random (k + 1) (i - 1) (swap wordArray i ?j))
          = length (swap wordArray i ?j)"
      by (intro "1.IH") simp_all
    with sw True show ?thesis
      by (simp add: shuffle_loop.simps [of random k i wordArray] Let_def)
  qed
qed

text \<open>
  C8. For every input array and every sequence of draws of \<open>Math.random()\<close>, each in
  its range \<open>[0, 1)\<close>, \<open>shuffleArray\<close> returns a permutation of its input: the same
  elements with the same multiplicities, and the same length.
\<close>

theorem shuffleArray_permutation:
  assumes "\<forall>k. 0 \<le> random k \<and> random k < 1"
  shows "mset (shuffleArray random wordArray) = mset wordArray
         \<and> length (shuffleArray random wordArray) = length wordArray"
  unfolding shuffleArray_def using assms by (intro shuffle_loop_perm) simp_all

theorem shuffleArray_permutation_witness:
  "(0::real) \<le> 1 / 2 \<and> (1::real) / 2 < 1
   \<and> shuffleArray (\<lambda>k. 1 / 2) [Some ''a'', Some ''b'', Some ''c'', Some ''d'']
       = [Some ''a'', Some ''d'', Some ''b'', Some ''c'']
   \<and> mset (shuffleArray (\<lambda>k. 1 / 2) [Some ''a'', Some ''b'', Some ''c'', Some ''d''])
       = mset [Some ''a'', Some ''b'', Some ''c'', Some ''d'']"
  using shuffleArray_permutation [of "\<lambda>k. 1 / 2" "[Some ''a'', Some ''b'', Some ''c'', Some ''d'']"]
  by (simp add: shuffleArray_def shuffle_loop.simps swap_def array_get_def array_set_def Let_def)

section \<open>Properties of relatedWords and getSynonyms\<close>

lemma push_synonyms_filter:
  "push_synonyms data syns =
     syns @ map entry_words (filter (\<lambda>e. entry_relationshipType e = ''synonym'') data)"
  unfolding push_synonyms_def by (induction data arbitrary: syns) simp_all

lemma step_synonyms:
  "synonyms (relatedWords_step this fetch apiKey st word) =
     synonyms st @ synonym_lists this fetch apiKey word"
  by (simp add: relatedWords_step_def relatedWords_try_def synonym_lists_def Let_def
      push_synonyms_filter split: option.splits)

lemma step_console_prefix:
  "\<exists>ls. console (relatedWords_step this fetch apiKey st word) = console st @ ls"
  by (simp add: relatedWords_step_def relatedWords_try_def Let_def split: option.splits)

lemma step_console_failed:
  assumes "fetch (wordnik_url this word apiKey) = None
           \<or> (\<exists>response. fetch (wordnik_url this word apiKey) = Some response
                \<and> \<not> response_ok response)"
  shows "Error word \<in> set (console (relatedWords_step this fetch apiKey st word))"
  using assms
  by (auto simp: relatedWords_step_def relatedWords_try_def Let_def split: option.splits)

lemma foldl_step_synonyms:
  "synonyms (foldl (relatedWords_step this fetch apiKey) st words) =
     synonyms st @ concat (map (synonym_lists this fetch apiKey) words)"
  by (induction words arbitrary: st) (simp_all add: step_synonyms)

lemma foldl_step_console:
  "set (console st) \<subseteq> set (console (foldl (relatedWords_step this fetch apiKey) st words))"
proof (induction words arbitrary: st)
  case Nil
  then show ?case by simp
next
  case (Cons w ws)
  obtain ls where "console (relatedWords_step this fetch apiKey st w) = console st @ ls"
    using step_console_prefix by blast
  then have "set (console st) \<subseteq> set (console (relatedWords_step this fetch apiKey st w))"
    by simp
  with Cons.IH [of "relatedWords_step this fetch apiKey st w"] show ?case by auto
qed

lemma relatedWords_synonyms:
  "synonyms (relatedWords this fetch words apiKey) =
     concat (map (synonym_lists this fetch apiKey) words)"
  by (simp add: relatedWords_def foldl_step_synonyms)

text \<open>
  C5. A word whose request fails at the transport level, or whose response is not a
  success, is skipped with an error line on the console, and the batch goes on: the
  synonyms returned for the whole list are those gathered from the words before it
  followed by those gathered from the words after it.
\<close>

theorem relatedWords_skips_failed_word:
  assumes "fetch (wordnik_url this word apiKey) = None
           \<or> (\<exists>response. fetch (wordnik_url this word apiKey) = Some response
                \<and> \<not> response_ok response)"
  shows "synonyms (relatedWords this fetch (before @ word # after) apiKey) =
           synonyms (relatedWords this fetch before apiKey)
             @ synonyms (relatedWords this fetch after apiKey)
         \<and> Error word \<in> set (console (relatedWords this fetch (before @ word # after) apiKey))"
proof -
  from assms have none: "synonym_lists this fetch apiKey word = []"
    by (auto simp: synonym_lists_def)
  have syn: "synonyms (relatedWords this fetch (before @ word # after) apiKey) =
           synonyms (relatedWords this fetch before apiKey)
             @ synonyms (relatedWords this fetch after apiKey)"
    by (simp add: relatedWords_synonyms none)
  let ?st = "foldl (relatedWords_step this fetch apiKey) \<lparr>synonyms = [], console = []\<rparr> before"
  have "Error word \<in> set (console (relatedWords_step this fetch apiKey ?st word))"
    using assms by (rule step_console_failed)
  then have "Error word \<in> set (console (foldl (relatedWords_step this fetch apiKey)
                (relatedWords_step this fetch apiKey ?st word) after))"
    using foldl_step_console by blast
  then have "Error word \<in> set (console (relatedWords this fetch (before @ word # after) apiKey))"
    by (simp add: relatedWords_def)
  with syn show ?thesis by simp
qed

theorem relatedWords_skips_failed_word_witness:
  "example_wordnik (wordnik_url example_processing ''down'' ''k'') = None
   \<and> synonyms (relatedWords example_processing example_wordnik [''large'', ''down'', ''great''] ''k'')
       = [[''big'', ''huge''], [''big'']]
   \<and> Error ''down'' \<in> set (console
         (relatedWords example_processing example_wordnik [''large'', ''down'', ''great''] ''k''))"
proof -
  have h: "example_wordnik (wordnik_url example_processing ''down'' ''k'') = None
      \<or> (\<exists>response. example_wordnik (wordnik_url example_processing ''down'' ''k'') = Some response
            \<and> \<not> response_ok response)"
    by (rule disjI1) code_simp
  have n: "example_wordnik (wordnik_url example_processing ''down'' ''k'') = None"
    by code_simp
  have "synonyms (relatedWords example_processing example_wordnik [''large''] ''k'')
          @ synonyms (relatedWords example_processing example_wordnik [''great''] ''k'')
        = [[''big'', ''huge''], [''big'']]"
    by code_simp
  with n relatedWords_skips_failed_word
         [where fetch = example_wordnik and this = example_processing and word = "''down''"
            and apiKey = "''k''" and before = "[''large'']" and after = "[''great'']", OF h] show ?thesis by simp
qed

text \<open>
  C6. \<open>relatedWords\<close> takes from each word's response exactly the entries whose
  \<open>relationshipType\<close> is \<open>synonym\<close>; \<open>getSynonyms\<close> stores the flattening of their word
  lists over all the input words, which \<open>renderSynonyms\<close> makes the cloud's words.
  Nothing is deduplicated: the length of the result is the sum of the lengths of the
  lists.
\<close>

theorem getSynonyms_flattens_synonym_entries:
  "fc_synonymsArray (getSynonyms cloud wp fetch) =
     concat (concat (map (synonym_lists wp fetch (fc_apiKey cloud)) (fc_words cloud)))
   \<and> fc_words (fst (renderSynonyms (getSynonyms cloud wp fetch))) =
     concat (concat (map (synonym_lists wp fetch (fc_apiKey cloud)) (fc_words cloud)))
   \<and> length (fc_synonymsArray (getSynonyms cloud wp fetch)) =
     sum_list (map length (concat (map (synonym_lists wp fetch (fc_apiKey cloud)) (fc_words cloud))))"
  by (simp add: getSynonyms_def renderSynonyms_def flat_def Let_def relatedWords_synonyms length_concat)

theorem getSynonyms_flattens_synonym_entries_witness:
  "fc_synonymsArray
     (getSynonyms (FemaleCloud_constructor [''large'', ''missing'', ''great''] ''#female-cloud'' ''k'')
        example_processing example_wordnik)
   = [''big'', ''huge'', ''big'']"
proof -
  have "concat (concat (map (synonym_lists example_processing example_wordnik ''k'')
          [''large'', ''missing'', ''great''])) = [''big'', ''huge'', ''big'']"
    by code_simp
  with getSynonyms_flattens_synonym_entries
         [of "FemaleCloud_constructor [''large'', ''missing'', ''great''] ''#female-cloud'' ''k''"
             example_processing example_wordnik]
  show ?thesis by (simp add: FemaleCloud_constructor_def)
qed

section \<open>Properties of getWordFrequency\<close>

lemma callback_result:
  "snd (getWordFrequency_callback fetch this word) =
     (case reply_data fetch word of
        None \<Rightarrow> Inl (if fetch (datamuse_url word) = None then TransportError else MalformedResponse)
      | Some data \<Rightarrow> Inr \<lparr>entry_word = word, entry_frequency = first_score data\<rparr>)"
  by (auto simp: getWordFrequency_callback_def reply_data_def datamuse_url_def first_score_def Let_def
      split: option.splits list.splits)

lemma callback_state:
  "fst (getWordFrequency_callback fetch this word) =
     this\<lparr>datamuseBaseUrl := ''https://api.datamuse.com/words''\<rparr>"
  by (simp add: getWordFrequency_callback_def Let_def)

lemma snd_map_callbacks:
  "snd (map_callbacks fetch this words) =
     map (\<lambda>word. snd (getWordFrequency_callback fetch this word)) words"
proof (induction words arbitrary: this)
  case Nil
  then show ?case by simp
next
  case (Cons w ws)
  have indep: "\<And>t t' x. snd (getWordFrequency_callback fetch t x) = snd (getWordFrequency_callback fetch t' x)"
    by (simp add: callback_result)
  show ?case
    using Cons.IH [of "fst (getWordFrequency_callback fetch this w)"] indep
    by (auto simp: split_beta Let_def)
qed

lemma fst_map_callbacks:
  "fst (map_callbacks fetch this words) =
     (if words = [] then this else this\<lparr>datamuseBaseUrl := ''https://api.datamuse.com/words''\<rparr>)"
proof (induction words arbitrary: this)
  case Nil
  then show ?case by simp
next
  case (Cons w ws)
  show ?case
    using Cons.IH [of "fst (getWordFrequency_callback fetch this w)"]
    by (simp add: split_beta Let_def callback_state)
qed

lemma Promise_all_Inr: "Promise_all (map Inr xs) = Inr xs"
  by (induction xs) simp_all

lemma Promise_all_Inl: "Inl e \<in> set ps \<Longrightarrow> \<exists>e'. Promise_all ps = Inl e'"
proof (induction ps)
  case Nil
  then show ?case by simp
next
  case (Cons p ps)
  then show ?case by (cases p) (auto split: sum.splits)
qed

text \<open>
  What holds when every word's request is answered with an array: \<open>getWordFrequency\<close>
  resolves to exactly one entry per input word, in the order of the input; the entry of
  a word carries the score of the first match when the array is not empty and 0 when
  it is empty.
\<close>

theorem getWordFrequency_entries:
  assumes "\<forall>word \<in> set words. reply_data fetch word \<noteq> None"
  shows "snd (getWordFrequency fetch this words) =
           Inr (map (\<lambda>word. \<lparr>entry_word = word,
                              entry_frequency = first_score (the (reply_data fetch word))\<rparr>) words)"
proof -
  have "map (\<lambda>word. snd (getWordFrequency_callback fetch this word)) words =
          map Inr (map (\<lambda>word. \<lparr>entry_word = word,
                              entry_frequency = first_score (the (reply_data fetch word))\<rparr>) words)"
    using assms by (auto simp: callback_result)
  then show ?thesis
    by (simp add: getWordFrequency_def split_beta snd_map_callbacks Promise_all_Inr del: map_map)
qed

theorem getWordFrequency_entries_witness:
  "reply_data example_datamuse ''cat'' \<noteq> None
   \<and> reply_data example_datamuse ''zzznotawordzzz'' \<noteq> None
   \<and> snd (getWordFrequency example_datamuse example_processing [''cat'', ''zzznotawordzzz'']) =
       Inr [\<lparr>entry_word = ''cat'', entry_frequency = Finite 1234\<rparr>,
            \<lparr>entry_word = ''zzznotawordzzz'', entry_frequency = Finite 0\<rparr>]"
proof -
  have h: "\<forall>word \<in> set [''cat'', ''zzznotawordzzz'']. reply_data example_datamuse word \<noteq> None"
    by code_simp
  have "map (\<lambda>word. \<lparr>entry_word = word,
            entry_frequency = first_score (the (reply_data example_datamuse word))\<rparr>)
          [''cat'', ''zzznotawordzzz'']
        = [\<lparr>entry_word = ''cat'', entry_frequency = Finite 1234\<rparr>,
           \<lparr>entry_word = ''zzznotawordzzz'', entry_frequency = Finite 0\<rparr>]"
    by code_simp
  with h getWordFrequency_entries
         [where fetch = example_datamuse and words = "[''cat'', ''zzznotawordzzz'']"
            and this = example_processing, OF h] show ?thesis by simp
qed

text \<open>A single word without an array in reply makes the whole call reject.\<close>

lemma getWordFrequency_rejects:
  assumes "word \<in> set words" and "reply_data fetch word = None"
  shows "\<exists>e. snd (getWordFrequency fetch this words) = Inl e"
proof -
  from assms(2) obtain e where "snd (getWordFrequency_callback fetch this word) = Inl e"
    by (simp add: callback_result)
  with assms(1) have "Inl e \<in> set (map (\<lambda>word. snd (getWordFrequency_callback fetch this word)) words)"
    by force
  then show ?thesis
    by (simp add: getWordFrequency_def split_beta snd_map_callbacks Promise_all_Inl)
qed

text \<open>
  C3. The claim asks for exactly one entry per input word, for every word list, no word
  dropped. With \<open>cat\<close> answered by one match, \<open>zzznotawordzzz\<close> answered by the empty
  array and \<open>dog\<close> unreachable, the claim asks for three entries; the call rejects and
  returns no entry at all, the two words that were answered included.
\<close>

theorem getWordFrequency_drops_every_entry:
  "reply_data example_datamuse ''cat'' = Some [\<lparr>match_word = ''cat'', match_score = Finite 1234\<rparr>]
   \<and> reply_data example_datamuse ''zzznotawordzzz'' = Some []
   \<and> reply_data example_datamuse ''dog'' = None
   \<and> snd (getWordFrequency example_datamuse example_processing
             [''cat'', ''zzznotawordzzz'', ''dog'']) = Inl TransportError"
  by code_simp

text \<open>
  C4. The claim asks that one failed request leave the batch standing and the other
  words' results available. \<open>getWordFrequency\<close> awaits \<open>Promise.all\<close> over callbacks
  that catch nothing: with \<open>cat\<close> answered and \<open>dog\<close> unreachable, the whole call
  rejects and the entry of \<open>cat\<close> is lost.
\<close>

theorem getWordFrequency_one_failure_rejects_batch:
  "reply_data example_datamuse ''cat'' = Some [\<lparr>match_word = ''cat'', match_score = Finite 1234\<rparr>]
   \<and> example_datamuse (datamuse_url ''dog'') = None
   \<and> snd (getWordFrequency example_datamuse example_processing [''cat'', ''dog'']) = Inl TransportError"
  by code_simp

text \<open>The field after a call: untouched for no word, the literal URL otherwise.\<close>

lemma getWordFrequency_state:
  "fst (getWordFrequency fetch this words) =
     (if words = [] then this else this\<lparr>datamuseBaseUrl := ''https://api.datamuse.com/words''\<rparr>)"
  by (simp add: getWordFrequency_def split_beta fst_map_callbacks)

text \<open>
  C10. The claim asks that \<open>getWordFrequency\<close> leave \<open>datamuseBaseUrl\<close> as the
  constructor set it. The template literal assigns the literal Datamuse URL to the
  field for every word: an object constructed with another base URL holds the literal
  after a call on one word.
\<close>

theorem getWordFrequency_overwrites_base_url:
  "datamuseBaseUrl example_processing = ''http://localhost:8080/words''
   \<and> datamuseBaseUrl (fst (getWordFrequency example_datamuse example_processing [''cat'']))
       = ''https://api.datamuse.com/words''"
  by code_simp

section \<open>Properties of MaleCloud.drawCloud\<close>

lemma scaleFontSize_same: "scaleFontSize f f f = NaN"
  by (cases f) (simp_all add: scaleFontSize_def num_sub_def minSize_def maxSize_def signed_inf_def)

lemma max2_same: "max2 f f = f"
  by (cases f) (simp_all add: max2_def)

lemma min2_same: "min2 f f = f"
  by (cases f) (simp_all add: min2_def)

lemma foldl_max2_same: "\<forall>x \<in> set xs. x = f \<Longrightarrow> foldl max2 f xs = f"
  by (induction xs) (simp_all add: max2_same)

lemma foldl_min2_same: "\<forall>x \<in> set xs. x = f \<Longrightarrow> foldl min2 f xs = f"
  by (induction xs) (simp_all add: min2_same)

lemma Math_max_same: "xs \<noteq> [] \<Longrightarrow> \<forall>x \<in> set xs. x = f \<Longrightarrow> Math_max xs = f"
proof (cases xs)
  case Nil
  assume "xs \<noteq> []"
  with Nil show ?thesis by simp
next
  case (Cons y ys)
  assume all: "\<forall>x \<in> set xs. x = f"
  with Cons have y: "y = f" and ys: "\<forall>x \<in> set ys. x = f" by simp_all
  have "max2 NegInf f = f" by (cases f) (simp_all add: max2_def)
  with Cons y ys show ?thesis by (simp add: Math_max_def foldl_max2_same)
qed

lemma Math_min_same: "xs \<noteq> [] \<Longrightarrow> \<forall>x \<in> set xs. x = f \<Longrightarrow> Math_min xs = f"
proof (cases xs)
  case Nil
  assume "xs \<noteq> []"
  with Nil show ?thesis by simp
next
  case (Cons y ys)
  assume all: "\<forall>x \<in> set xs. x = f"
  with Cons have y: "y = f" and ys: "\<forall>x \<in> set ys. x = f" by simp_all
  have "min2 PosInf f = f" by (cases f) (simp_all add: min2_def)
  with Cons y ys show ?thesis by (simp add: Math_min_def foldl_min2_same)
qed

text \<open>
  Whatever the common frequency of a non-empty word set is, every size is NaN.
\<close>

lemma drawCloud_all_equal_NaN:
  assumes "words \<noteq> []" and "\<forall>w \<in> set words. word_frequency w = f"
  shows "\<forall>s \<in> set (layout_words (MaleCloud_drawCloud words)). sized_size s = NaN"
proof -
  from assms have mx: "Math_max (map word_frequency words) = f"
    by (intro Math_max_same) auto
  from assms have mn: "Math_min (map word_frequency words) = f"
    by (intro Math_min_same) auto
  from assms(2) show ?thesis
    by (auto simp: MaleCloud_drawCloud_def Let_def mx mn scaleFontSize_same)
qed

text \<open>
  C1. When all the words of a MaleCloud have the same frequency, the claim asks for a
  defined size for every word, not NaN. \<open>scaleFontSize\<close> has no case for
  \<open>maxFrequency = minFrequency\<close>: three words that all score 5 give \<open>0 * 32 / 0\<close>, and
  every size handed to the layout is NaN.
\<close>

theorem drawCloud_three_equal_NaN:
  "map sized_size (layout_words (MaleCloud_drawCloud
      [\<lparr>word_text = ''boys'', word_size = Finite 0, word_frequency = Finite 5\<rparr>,
       \<lparr>word_text = ''male'', word_size = Finite 0, word_frequency = Finite 5\<rparr>,
       \<lparr>word_text = ''rate'', word_size = Finite 0, word_frequency = Finite 5\<rparr>]))
   = [NaN, NaN, NaN]"
  by (simp add: MaleCloud_drawCloud_def Let_def Math_max_def Math_min_def max2_def min2_def
      scaleFontSize_def num_sub_def minSize_def maxSize_def signed_inf_def)

text \<open>
  C2, as stated, asks that no maximum or minimum of an empty sequence be evaluated.
  On the empty word set \<open>drawCloud\<close> does evaluate both, with no guard: its two constants
  are the values of \<open>Math.max()\<close> and \<open>Math.min()\<close> over no argument, \<open>-Infinity\<close> and
  \<open>Infinity\<close>.
\<close>

theorem drawCloud_empty_extrema:
  "maxFrequency (MaleCloud_drawCloud []) = Math_max []
   \<and> minFrequency (MaleCloud_drawCloud []) = Math_min []
   \<and> Math_max [] = NegInf \<and> Math_min [] = PosInf"
  by (simp add: MaleCloud_drawCloud_def Let_def Math_max_def Math_min_def)

text \<open>
  C2, amended. On the empty word set \<open>drawCloud\<close> evaluates the maximum and the minimum
  of the empty sequence to \<open>-Infinity\<close> and \<open>Infinity\<close>, which JavaScript defines and
  which raises nothing; no size is computed from them, the array handed to the layout
  is empty, and so no computed size is NaN.
\<close>

theorem drawCloud_empty:
  "MaleCloud_drawCloud [] = \<lparr>maxFrequency = NegInf, minFrequency = PosInf, layout_words = []\<rparr>
   \<and> NaN \<notin> set (map sized_size (layout_words (MaleCloud_drawCloud [])))"
  by (simp add: MaleCloud_drawCloud_def Let_def Math_max_def Math_min_def)

section \<open>Properties of the extraction in main.js\<close>

lemma split_loop_chars:
  "\<forall>c \<in> set cur. P c \<Longrightarrow> \<forall>c \<in> set s. is_space c \<or> P c
     \<Longrightarrow> \<forall>t \<in> set (split_loop insep cur s). \<forall>c \<in> set t. P c"
proof (induction s arbitrary: insep cur)
  case Nil
  then show ?case by simp
next
  case (Cons a s)
  from Cons.prems(2) have rest: "\<forall>c \<in> set s. is_space c \<or> P c" by simp
  show ?case
  proof (cases "is_space a")
    case True
    have "\<forall>t \<in> set (split_loop True cur s). \<forall>c \<in> set t. P c"
      using Cons.prems(1) rest by (rule Cons.IH)
    moreover have "\<forall>t \<in> set (split_loop True [] s). \<forall>c \<in> set t. P c"
      using rest by (intro Cons.IH) simp_all
    ultimately show ?thesis using True Cons.prems(1) by simp
  next
    case False
    with Cons.prems have "\<forall>c \<in> set (cur @ [a]). P c" by simp
    then have "\<forall>t \<in> set (split_loop False (cur @ [a]) s). \<forall>c \<in> set t. P c"
      using rest by (rule Cons.IH)
    with False show ?thesis by simp
  qed
qed

lemma row_tokens_alpha:
  assumes "row_tokens row = Inr ts"
  shows "\<forall>t \<in> set ts. \<forall>c \<in> set t. is_alpha c"
proof -
  from assms obtain v where ts: "ts = split_spaces (replace_non_alpha (toLowerCase v))"
    by (auto simp: row_tokens_def split: option.splits)
  have "\<forall>c \<in> set (replace_non_alpha (toLowerCase v)). is_space c \<or> is_alpha c"
    by (auto simp: replace_non_alpha_def is_space_def)
  then show ?thesis
    unfolding ts split_spaces_def by (intro split_loop_chars) simp_all
qed

lemma map_rows_alpha:
  "map_rows rows = Inr tss \<Longrightarrow> \<forall>ts \<in> set tss. \<forall>t \<in> set ts. \<forall>c \<in> set t. is_alpha c"
proof (induction rows arbitrary: tss)
  case Nil
  then show ?case by simp
next
  case (Cons row rows)
  then show ?case
    using row_tokens_alpha by (fastforce split: sum.splits)
qed

text \<open>
  What the extraction does guarantee: no token occurs twice in the vocabulary, and every
  character of every token is an ASCII letter.
\<close>

lemma extract_vocabulary_distinct_alpha:
  assumes "extract_vocabulary csvData = Inr v"
  shows "distinct v \<and> (\<forall>t \<in> set v. \<forall>c \<in> set t. is_alpha c)"
proof -
  from assms obtain tss where rows: "map_rows csvData = Inr tss"
    and v: "v = new_Set (concat tss)"
    by (auto simp: extract_vocabulary_def csv_words_def vocabulary_def Array_from_def flat_def
        truthy_array_def split: sum.splits)
  have "distinct v" by (simp add: v new_Set_unique_spec distinct_unique_spec)
  moreover have "\<forall>t \<in> set v. \<forall>c \<in> set t. is_alpha c"
    using map_rows_alpha [OF rows] by (auto simp: v set_new_Set)
  ultimately show ?thesis by simp
qed

text \<open>
  C9. The claim asks that empty tokens be discarded. \<open>.filter(word => word)\<close> is applied
  to the array of token arrays and not to the tokens, so it removes nothing: a field
  value that ends in a non-alphabetic character leaves an empty token, which reaches
  the vocabulary.
\<close>

theorem extract_keeps_empty_token:
  "extract_vocabulary [[''indicator_name'' \<mapsto> ''Female literacy rate (%)'']]
     = Inr [''female'', ''literacy'', ''rate'', '''']"
  by code_simp

end
